theory Spec2Isabelle
  imports Main "HOL-Library.AList"
begin

section \<open>The loan canister of \<open>dfinity_js_backend/src/index.ts\<close>\<close>

text \<open>
  The canister is a set of handlers over three stable maps. Each handler is modelled as a
  function from the call's context (caller, time, the identifier \<open>uuidv4()\<close> returns in
  that call) and the canister state to a result and the new state.

  Numbers are JavaScript \<open>bigint\<close>s: unbounded integers whose division truncates towards
  zero and throws on a zero divisor. They are modelled as \<open>int\<close>. A stable map encodes
  every key and value it is given with the Candid type it was declared with, and the
  encoding throws on a value that is not of that type: a \<open>nat64\<close> field outside
  \<open>0 .. 2^64 - 1\<close>, a text where a principal is declared, a record where a vector is
  declared. An exception that no handler catches traps the call, and a trapped call
  leaves the state as it was.
\<close>

subsection \<open>Types\<close>

type_synonym Principal = string
type_synonym nat64 = int

datatype LoanStatus = Active string | Completed string | Defaulted string

record LoanRequest =
  amount :: nat64
  interestRate :: nat64
  duration :: nat64

record Loan =
  loan_id :: string
  amount :: nat64
  interestRate :: nat64
  duration :: nat64
  borrower :: Principal
  lender :: "Principal option"
  status :: LoanStatus
  creationDate :: nat64
  dueDate :: nat64

record UserProfile =
  principal :: Principal
  name :: string
  balance :: nat64

datatype Message =
  NotFound string | InvalidPayload string | PaymentFailed string | PaymentCompleted string

text \<open>\<open>Result(T, Message)\<close>: \<open>Inl\<close> is \<open>Err\<close>, \<open>Inr\<close> is \<open>Ok\<close>.\<close>

type_synonym 'a Result = "Message + 'a"

text \<open>
  The exceptions of the handlers: a \<open>bigint\<close> division by zero, a value that the Candid
  encoding of a stable map rejects, and a \<open>TypeError\<close> of the language (a call of
  something that is not a function, a sum of a \<open>bigint\<close> and \<open>undefined\<close>).
\<close>

datatype trap = DivisionByZero | EncodeError | TypeError

subsection \<open>Candid encoding\<close>

definition isNat64 :: "int \<Rightarrow> bool" where
  "isNat64 x = (0 \<le> x \<and> x < 2 ^ 64)"

definition loanEncodable :: "Loan \<Rightarrow> bool" where
  "loanEncodable loan =
     (isNat64 (amount loan) \<and> isNat64 (interestRate loan) \<and> isNat64 (duration loan) \<and>
      isNat64 (creationDate loan) \<and> isNat64 (dueDate loan))"

definition profileEncodable :: "UserProfile \<Rightarrow> bool" where
  "profileEncodable user = isNat64 (balance user)"

text \<open>
  The values the handlers pass to \<open>loanRequestsStorage\<close>, which is declared as
  \<open>StableBTreeMap(1, Principal, Vec(LoanRequest))\<close>: the handlers pass a principal or a
  text as key and a single request record as value.
\<close>

datatype js_value =
  PrincipalValue Principal | TextValue string | RecordValue LoanRequest
  | VecValue "LoanRequest list"

definition encodePrincipal :: "js_value \<Rightarrow> trap + Principal" where
  "encodePrincipal v = (case v of PrincipalValue p \<Rightarrow> Inr p | _ \<Rightarrow> Inl EncodeError)"

definition encodeRequestVec :: "js_value \<Rightarrow> trap + LoanRequest list" where
  "encodeRequestVec v = (case v of VecValue requests \<Rightarrow> Inr requests | _ \<Rightarrow> Inl EncodeError)"

subsection \<open>Stable maps\<close>

text \<open>
  A \<open>StableBTreeMap\<close> is modelled as an association list with at most one entry per key
  in the lists the handlers build: \<open>insert\<close> overwrites the entry of a key that is present
  and adds one otherwise. The order in which \<open>values()\<close> yields the entries is the list's
  order; no general statement below depends on it.
\<close>

type_synonym ('k, 'v) StableBTreeMap = "('k \<times> 'v) list"

definition btree_get :: "('k, 'v) StableBTreeMap \<Rightarrow> 'k \<Rightarrow> 'v option" where
  "btree_get m k = map_of m k"

definition btree_insert :: "'k \<Rightarrow> 'v \<Rightarrow> ('k, 'v) StableBTreeMap \<Rightarrow> ('k, 'v) StableBTreeMap" where
  "btree_insert k v m = AList.update k v m"

definition btree_values :: "('k, 'v) StableBTreeMap \<Rightarrow> 'v list" where
  "btree_values m = map snd m"

text \<open>The three maps with the encoding of their declared types.\<close>

definition loans_insert ::
  "string \<Rightarrow> Loan \<Rightarrow> (string, Loan) StableBTreeMap \<Rightarrow> trap + (string, Loan) StableBTreeMap" where
  "loans_insert k loan m = (if loanEncodable loan then Inr (btree_insert k loan m) else Inl EncodeError)"

definition profiles_insert ::
  "Principal \<Rightarrow> UserProfile \<Rightarrow> (Principal, UserProfile) StableBTreeMap
     \<Rightarrow> trap + (Principal, UserProfile) StableBTreeMap" where
  "profiles_insert k user m =
     (if profileEncodable user then Inr (btree_insert k user m) else Inl EncodeError)"

definition requests_insert ::
  "js_value \<Rightarrow> js_value \<Rightarrow> (Principal, LoanRequest list) StableBTreeMap
     \<Rightarrow> trap + (Principal, LoanRequest list) StableBTreeMap" where
  "requests_insert k v m =
     (case encodePrincipal k of
        Inl e \<Rightarrow> Inl e
      | Inr p \<Rightarrow>
          (case encodeRequestVec v of
             Inl e \<Rightarrow> Inl e
           | Inr requests \<Rightarrow> Inr (btree_insert p requests m)))"

definition requests_get ::
  "(Principal, LoanRequest list) StableBTreeMap \<Rightarrow> js_value \<Rightarrow> trap + LoanRequest list option" where
  "requests_get m k =
     (case encodePrincipal k of Inl e \<Rightarrow> Inl e | Inr p \<Rightarrow> Inr (btree_get m p))"

record canister =
  loansStorage :: "(string, Loan) StableBTreeMap"
  loanRequestsStorage :: "(Principal, LoanRequest list) StableBTreeMap"
  userProfiles :: "(Principal, UserProfile) StableBTreeMap"

definition init_canister :: canister where
  "init_canister = \<lparr>loansStorage = [], loanRequestsStorage = [], userProfiles = []\<rparr>"

record call_env =
  caller :: Principal
  time :: nat64
  uuid :: string

subsection \<open>bigint arithmetic and printing\<close>

definition bigint_quot :: "int \<Rightarrow> int \<Rightarrow> int" where
  "bigint_quot a b = sgn a * sgn b * (\<bar>a\<bar> div \<bar>b\<bar>)"

definition bigint_div :: "int \<Rightarrow> int \<Rightarrow> trap + int" where
  "bigint_div a b = (if b = 0 then Inl DivisionByZero else Inr (bigint_quot a b))"

fun digits :: "nat \<Rightarrow> string" where
  "digits n =
     (if n < 10 then [''0123456789'' ! n]
      else digits (n div 10) @ [''0123456789'' ! (n mod 10)])"

declare digits.simps [simp del]

definition bigint_toString :: "int \<Rightarrow> string" where
  "bigint_toString i = (if i < 0 then CHR ''-'' # digits (nat (- i)) else digits (nat i))"

subsection \<open>Helper functions of the source\<close>

definition secondsPerYear :: int where
  "secondsPerYear = 365 * 24 * 60 * 60"

text \<open>
  \<open>loan.amount * loan.interestRate / 100n * (ic.time() - loan.creationDate) / (365n * 24n * 60n * 60n)\<close>:
  \<open>*\<close> and \<open>/\<close> associate to the left, and both divisors are non-zero literals.
\<close>

definition calculateAccumulatedInterest :: "call_env \<Rightarrow> Loan \<Rightarrow> int" where
  "calculateAccumulatedInterest env loan =
     bigint_quot
       (bigint_quot (amount loan * interestRate loan) 100 * (time env - creationDate loan))
       secondsPerYear"

definition shouldAutomateRepayment :: "call_env \<Rightarrow> Loan \<Rightarrow> bool" where
  "shouldAutomateRepayment env loan = (time env \<ge> dueDate loan)"

definition calculateRepaymentAmount :: "call_env \<Rightarrow> Loan \<Rightarrow> trap + int" where
  "calculateRepaymentAmount env loan =
     (let accumulatedInterest = calculateAccumulatedInterest env loan
      in case bigint_div (amount loan) (duration loan) of
           Inl e \<Rightarrow> Inl e
         | Inr partOfPrincipal \<Rightarrow> Inr (accumulatedInterest + partOfPrincipal))"

definition calculateDueDate :: "call_env \<Rightarrow> nat64 \<Rightarrow> nat64" where
  "calculateDueDate env d = time env + d"

definition loanIsFullyRepaid :: "Loan \<Rightarrow> bool" where
  "loanIsFullyRepaid loan = False"

definition loanIsDefaulted :: "Loan \<Rightarrow> bool" where
  "loanIsDefaulted loan = False"

text \<open>The test \<open>loan.status.Active === "ACTIVE"\<close>.\<close>

definition statusIsActive :: "Loan \<Rightarrow> bool" where
  "statusIsActive loan = (status loan = Active ''ACTIVE'')"

subsection \<open>Handlers\<close>

definition registerUser :: "call_env \<Rightarrow> canister \<Rightarrow> string \<Rightarrow> string Result \<times> canister" where
  "registerUser env s nm =
     (let userProfile = \<lparr>principal = caller env, name = nm, balance = 0\<rparr>
      in (Inr (''User '' @ nm @ '' registered successfully with principal '' @ caller env),
          s\<lparr>userProfiles := btree_insert (caller env) userProfile (userProfiles s)\<rparr>))"

definition saveFunds ::
  "call_env \<Rightarrow> canister \<Rightarrow> nat64 \<Rightarrow> trap + (string Result \<times> canister)" where
  "saveFunds env s amt =
     (case btree_get (userProfiles s) (caller env) of
        None \<Rightarrow> Inr (Inl (NotFound ''User not found''), s)
      | Some user \<Rightarrow>
          (let user' = user\<lparr>balance := balance user + amt\<rparr>
           in case profiles_insert (principal user') user' (userProfiles s) of
                Inl e \<Rightarrow> Inl e
              | Inr profiles \<Rightarrow>
                  Inr (Inr (''Amount '' @ bigint_toString amt @ '' saved successfully.''),
                       s\<lparr>userProfiles := profiles\<rparr>)))"

text \<open>
  \<open>loanRequestsStorage.insert(ic.caller(), request)\<close>: the value is the request record
  itself, where the map is declared with a vector of requests.
\<close>

definition createLoanRequest ::
  "call_env \<Rightarrow> canister \<Rightarrow> LoanRequest \<Rightarrow> trap + (string Result \<times> canister)" where
  "createLoanRequest env s request =
     (let loanRequestId = uuid env
      in case requests_insert (PrincipalValue (caller env)) (RecordValue request)
                (loanRequestsStorage s) of
           Inl e \<Rightarrow> Inl e
         | Inr requests \<Rightarrow> Inr (Inr loanRequestId, s\<lparr>loanRequestsStorage := requests\<rparr>))"

text \<open>
  \<open>loanRequestsStorage.get(loanRequestId)\<close>: the key is the text argument, where the map
  is declared with principal keys. What the map holds under a key is a vector; it has no
  fields \<open>amount\<close>, \<open>interestRate\<close> or \<open>duration\<close>, so in the branch that builds the loan
  \<open>request.duration\<close> is \<open>undefined\<close> and \<open>ic.time() + request.duration\<close> throws.
\<close>

definition acceptLoanRequest ::
  "call_env \<Rightarrow> canister \<Rightarrow> string \<Rightarrow> trap + (Loan Result \<times> canister)" where
  "acceptLoanRequest env s loanRequestId =
     (case requests_get (loanRequestsStorage s) (TextValue loanRequestId) of
        Inl e \<Rightarrow> Inl e
      | Inr None \<Rightarrow>
          Inr (Inl (NotFound (''Loan request with id='' @ loanRequestId @ '' not found'')), s)
      | Inr (Some request) \<Rightarrow> Inl TypeError)"

text \<open>
  In \<open>makeRepayment\<close> and \<open>checkForDefault\<close> the loan written back is a stored loan with
  a new status text; its numbers are those the map held, so its encoding does not throw.
\<close>

definition makeRepayment :: "call_env \<Rightarrow> canister \<Rightarrow> string \<Rightarrow> nat64 \<Rightarrow> string Result \<times> canister" where
  "makeRepayment env s loanId repaymentAmount =
     (case btree_get (loansStorage s) loanId of
        None \<Rightarrow> (Inl (NotFound (''Loan with id='' @ loanId @ '' not found'')), s)
      | Some loan \<Rightarrow>
          (let s' = (if loanIsFullyRepaid loan
                     then s\<lparr>loansStorage :=
                             btree_insert (loan_id loan) (loan\<lparr>status := Completed ''COMPLETED''\<rparr>)
                               (loansStorage s)\<rparr>
                     else s)
           in (Inr (''Repayment of '' @ bigint_toString repaymentAmount @ '' for loan id=''
                      @ loanId @ '' successful''), s')))"

definition getLoanStatus :: "canister \<Rightarrow> string \<Rightarrow> LoanStatus Result" where
  "getLoanStatus s loanId =
     (case btree_get (loansStorage s) loanId of
        None \<Rightarrow> Inl (NotFound (''Loan with id='' @ loanId @ '' not found''))
      | Some loan \<Rightarrow> Inr (status loan))"

definition checkForDefault :: "call_env \<Rightarrow> canister \<Rightarrow> string list \<times> canister" where
  "checkForDefault env s =
     (let defaultedLoans = filter loanIsDefaulted (btree_values (loansStorage s));
          store = foldl (\<lambda>st loan. btree_insert (loan_id loan)
                                      (loan\<lparr>status := Defaulted ''DEFAULTED''\<rparr>) st)
                    (loansStorage s) defaultedLoans
      in (map loan_id defaultedLoans, s\<lparr>loansStorage := store\<rparr>))"

definition modifyLoanTerms ::
  "call_env \<Rightarrow> canister \<Rightarrow> string \<Rightarrow> LoanRequest \<Rightarrow> trap + (Loan Result \<times> canister)" where
  "modifyLoanTerms env s loanId newTerms =
     (case btree_get (loansStorage s) loanId of
        None \<Rightarrow> Inr (Inl (NotFound (''Loan with id='' @ loanId @ '' not found'')), s)
      | Some loan \<Rightarrow>
          (if \<not> statusIsActive loan
           then Inr (Inl (InvalidPayload ''Loan modification is only allowed for active loans.''), s)
           else
             (let loan' = loan\<lparr>amount := LoanRequest.amount newTerms,
                               interestRate := LoanRequest.interestRate newTerms,
                               duration := LoanRequest.duration newTerms,
                               dueDate := calculateDueDate env (LoanRequest.duration newTerms)\<rparr>
              in case loans_insert (loan_id loan') loan' (loansStorage s) of
                   Inl e \<Rightarrow> Inl e
                 | Inr loans \<Rightarrow> Inr (Inr loan', s\<lparr>loansStorage := loans\<rparr>))))"

text \<open>
  A \<open>filter\<close> whose predicate can throw, and the predicate of \<open>getUserLoanHistory\<close>.
  \<open>||\<close> answers at a matching borrower. Otherwise \<open>loan.lender !== None\<close> compares the
  option read from the map with the library's constant by identity, which holds for every
  stored loan, and \<open>loan.lender.toText()\<close> is then called on the option itself, which has
  no such method.
\<close>

fun filterThrowing :: "('a \<Rightarrow> trap + bool) \<Rightarrow> 'a list \<Rightarrow> trap + 'a list" where
  "filterThrowing p [] = Inr []"
| "filterThrowing p (x # xs) =
     (case p x of
        Inl e \<Rightarrow> Inl e
      | Inr b \<Rightarrow>
          (case filterThrowing p xs of
             Inl e \<Rightarrow> Inl e
           | Inr ys \<Rightarrow> Inr (if b then x # ys else ys)))"

definition historyPredicate :: "Principal \<Rightarrow> Loan \<Rightarrow> trap + bool" where
  "historyPredicate userPrincipal loan =
     (if borrower loan = userPrincipal then Inr True else Inl TypeError)"

definition getUserLoanHistory :: "canister \<Rightarrow> Principal \<Rightarrow> trap + Loan list" where
  "getUserLoanHistory s userPrincipal =
     filterThrowing (historyPredicate userPrincipal) (btree_values (loansStorage s))"

text \<open>
  \<open>forEach\<close> with a callback that writes to the store and can throw: the state after the
  elements seen so far, or the first exception.
\<close>

fun forEach :: "('a \<Rightarrow> 's \<Rightarrow> trap + 's) \<Rightarrow> 'a list \<Rightarrow> 's \<Rightarrow> trap + 's" where
  "forEach f [] acc = Inr acc"
| "forEach f (x # xs) acc =
     (case f x acc of Inl e \<Rightarrow> Inl e | Inr acc' \<Rightarrow> forEach f xs acc')"

text \<open>The callback of \<open>accumulateInterest\<close>, on the loans store and \<open>updatedLoans\<close>.\<close>

definition accumulateInterest_each ::
  "call_env \<Rightarrow> Loan \<Rightarrow> (string, Loan) StableBTreeMap \<times> string list
     \<Rightarrow> trap + ((string, Loan) StableBTreeMap \<times> string list)" where
  "accumulateInterest_each env loan acc =
     (let accumulatedInterest = calculateAccumulatedInterest env loan;
          loan' = loan\<lparr>amount := amount loan + accumulatedInterest\<rparr>
      in case loans_insert (loan_id loan') loan' (fst acc) of
           Inl e \<Rightarrow> Inl e
         | Inr loans \<Rightarrow> Inr (loans, snd acc @ [loan_id loan']))"

definition accumulateInterest :: "call_env \<Rightarrow> canister \<Rightarrow> trap + (string list \<times> canister)" where
  "accumulateInterest env s =
     (let activeLoans = filter statusIsActive (btree_values (loansStorage s))
      in case forEach (accumulateInterest_each env) activeLoans (loansStorage s, []) of
           Inl e \<Rightarrow> Inl e
         | Inr (loans, updatedLoans) \<Rightarrow> Inr (updatedLoans, s\<lparr>loansStorage := loans\<rparr>))"

text \<open>The callback of \<open>automateLoanRepayment\<close>, on the loans store and \<open>repaymentLoanIds\<close>.\<close>

definition automateLoanRepayment_each ::
  "call_env \<Rightarrow> Loan \<Rightarrow> (string, Loan) StableBTreeMap \<times> string list
     \<Rightarrow> trap + ((string, Loan) StableBTreeMap \<times> string list)" where
  "automateLoanRepayment_each env loan acc =
     (case calculateRepaymentAmount env loan of
        Inl e \<Rightarrow> Inl e
      | Inr repaymentAmount \<Rightarrow>
          (let loan' = loan\<lparr>amount := amount loan - repaymentAmount\<rparr>
           in case loans_insert (loan_id loan') loan' (fst acc) of
                Inl e \<Rightarrow> Inl e
              | Inr loans \<Rightarrow> Inr (loans, snd acc @ [loan_id loan'])))"

definition automateLoanRepayment :: "call_env \<Rightarrow> canister \<Rightarrow> trap + (string list \<times> canister)" where
  "automateLoanRepayment env s =
     (let loansForRepayment = filter (shouldAutomateRepayment env) (btree_values (loansStorage s))
      in case forEach (automateLoanRepayment_each env) loansForRepayment (loansStorage s, []) of
           Inl e \<Rightarrow> Inl e
         | Inr (loans, repaymentLoanIds) \<Rightarrow> Inr (repaymentLoanIds, s\<lparr>loansStorage := loans\<rparr>))"

definition requestLoanExtension ::
  "call_env \<Rightarrow> canister \<Rightarrow> string \<Rightarrow> nat64 \<Rightarrow> trap + (Loan Result \<times> canister)" where
  "requestLoanExtension env s loanId newDuration =
     (case btree_get (loansStorage s) loanId of
        None \<Rightarrow> Inr (Inl (NotFound (''Loan with id='' @ loanId @ '' not found'')), s)
      | Some loan \<Rightarrow>
          (if \<not> statusIsActive loan
           then Inr (Inl (InvalidPayload ''Loan extension is only allowed for active loans.''), s)
           else if newDuration \<le> duration loan
           then Inr (Inl (InvalidPayload ''New duration must be longer than the current duration.''), s)
           else
             (let loan' = loan\<lparr>duration := newDuration,
                               dueDate := calculateDueDate env newDuration\<rparr>
              in case loans_insert (loan_id loan') loan' (loansStorage s) of
                   Inl e \<Rightarrow> Inl e
                 | Inr loans \<Rightarrow> Inr (Inr loan', s\<lparr>loansStorage := loans\<rparr>))))"

subsection \<open>Sequences of update calls\<close>

text \<open>
  The update methods of the canister as data, so that a history of the canister is a list
  of calls, each with its own context. A call that traps leaves the state as it was.
\<close>

datatype call =
    RegisterUser string
  | SaveFunds nat64
  | CreateLoanRequest LoanRequest
  | AcceptLoanRequest string
  | MakeRepayment string nat64
  | CheckForDefault
  | ModifyLoanTerms string LoanRequest
  | AccumulateInterest
  | AutomateLoanRepayment
  | RequestLoanExtension string nat64

definition committed :: "canister \<Rightarrow> trap + ('a \<times> canister) \<Rightarrow> canister" where
  "committed s r = (case r of Inl e \<Rightarrow> s | Inr (x, s') \<Rightarrow> s')"

fun exec :: "canister \<Rightarrow> call_env \<times> call \<Rightarrow> canister" where
  "exec s (env, RegisterUser nm) = snd (registerUser env s nm)"
| "exec s (env, SaveFunds amt) = committed s (saveFunds env s amt)"
| "exec s (env, CreateLoanRequest request) = committed s (createLoanRequest env s request)"
| "exec s (env, AcceptLoanRequest loanRequestId) =
     committed s (acceptLoanRequest env s loanRequestId)"
| "exec s (env, MakeRepayment loanId repaymentAmount) = snd (makeRepayment env s loanId repaymentAmount)"
| "exec s (env, CheckForDefault) = snd (checkForDefault env s)"
| "exec s (env, ModifyLoanTerms loanId newTerms) =
     committed s (modifyLoanTerms env s loanId newTerms)"
| "exec s (env, AccumulateInterest) = committed s (accumulateInterest env s)"
| "exec s (env, AutomateLoanRepayment) = committed s (automateLoanRepayment env s)"
| "exec s (env, RequestLoanExtension loanId newDuration) =
     committed s (requestLoanExtension env s loanId newDuration)"

definition run :: "canister \<Rightarrow> (call_env \<times> call) list \<Rightarrow> canister" where
  "run s calls = foldl exec s calls"

subsection \<open>Predicates on the loans store\<close>

definition lenderAbsent :: "(string, Loan) StableBTreeMap \<Rightarrow> bool" where
  "lenderAbsent m = list_all (\<lambda>loan. lender loan = None) (btree_values m)"

definition loansKeyedById :: "(string, Loan) StableBTreeMap \<Rightarrow> bool" where
  "loansKeyedById m = (distinct (map fst m) \<and> list_all (\<lambda>(k, loan). loan_id loan = k) m)"


subsection \<open>Sample data\<close>

definition callAt :: "Principal \<Rightarrow> nat64 \<Rightarrow> string \<Rightarrow> call_env" where
  "callAt p t u = \<lparr>caller = p, time = t, uuid = u\<rparr>"

definition sampleRequest :: LoanRequest where
  "sampleRequest =
     \<lparr>LoanRequest.amount = 1000, LoanRequest.interestRate = 5, LoanRequest.duration = 3600\<rparr>"

definition sampleLoan :: "nat64 \<Rightarrow> nat64 \<Rightarrow> LoanStatus \<Rightarrow> Loan" where
  "sampleLoan a d st =
     \<lparr>loan_id = ''L1'', amount = a, interestRate = 5, duration = d, borrower = ''alice'',
      lender = None, status = st, creationDate = 0, dueDate = d\<rparr>"

definition sampleCanister :: "Loan \<Rightarrow> canister" where
  "sampleCanister loan =
     \<lparr>loansStorage = [(loan_id loan, loan)], loanRequestsStorage = [], userProfiles = []\<rparr>"

definition sampleStart :: canister where
  "sampleStart =
     \<lparr>loansStorage = [(''L1'', sampleLoan 1000 3600 (Active ''ACTIVE''))],
      loanRequestsStorage = [(''alice'', [sampleRequest])],
      userProfiles = []\<rparr>"

section \<open>Stable maps under a sweep\<close>

text \<open>
  The batch handlers read \<open>values()\<close> once and then write one entry per selected loan,
  under the loan's own id. These lemmas say what a later \<open>get\<close> finds.
\<close>

lemma set_update_subset: "set (AList.update k v al) \<subseteq> insert (k, v) (set al)"
  by (induction al) auto

lemma sweep_get_other:
  "k \<notin> loan_id ` set ls \<Longrightarrow>
   btree_get (foldl (\<lambda>st loan. btree_insert (loan_id loan) (f loan) st) m ls) k = btree_get m k"
  by (induction ls arbitrary: m) (auto simp: btree_get_def btree_insert_def update_conv')





lemma accumulateInterest_each_eq:
  "accumulateInterest_each env loan (st, ids) =
     (if loanEncodable (loan\<lparr>amount := amount loan + calculateAccumulatedInterest env loan\<rparr>)
      then Inr (btree_insert (loan_id loan)
                  (loan\<lparr>amount := amount loan + calculateAccumulatedInterest env loan\<rparr>) st,
                ids @ [loan_id loan])
      else Inl EncodeError)"
  by (simp add: accumulateInterest_each_def loans_insert_def Let_def)

lemma forEach_accumulateInterest_Inr:
  "forEach (accumulateInterest_each env) ls (st, ids) = Inr (st', ids') \<Longrightarrow>
   st' = foldl (\<lambda>m loan. btree_insert (loan_id loan)
                  (loan\<lparr>amount := amount loan + calculateAccumulatedInterest env loan\<rparr>) m) st ls \<and>
   ids' = ids @ map loan_id ls"
proof (induction ls arbitrary: st ids)
  case Nil
  then show ?case by simp
next
  case (Cons loan rest)
  from Cons.prems have
    "forEach (accumulateInterest_each env) rest
       (btree_insert (loan_id loan)
          (loan\<lparr>amount := amount loan + calculateAccumulatedInterest env loan\<rparr>) st,
        ids @ [loan_id loan]) = Inr (st', ids')"
    by (simp add: accumulateInterest_each_eq split: if_splits)
  from Cons.IH [OF this] show ?case by simp
qed


section \<open>Loan requests\<close>

text \<open>
  Both handlers of loan requests throw in the encoding of what they pass to
  \<open>loanRequestsStorage\<close>, whatever the state and the arguments.
\<close>

lemma createLoanRequest_traps: "createLoanRequest env s request = Inl EncodeError"
  by (simp add: createLoanRequest_def requests_insert_def encodePrincipal_def
        encodeRequestVec_def)

lemma acceptLoanRequest_traps: "acceptLoanRequest env s loanRequestId = Inl EncodeError"
  by (simp add: acceptLoanRequest_def requests_get_def encodePrincipal_def)

text \<open>
  Loans are created by \<open>acceptLoanRequest\<close> only, so a canister that starts without loans
  never holds one.
\<close>

lemma loansStorage_stays_empty:
  "loansStorage s = [] \<Longrightarrow> loansStorage (run s calls) = []"
  unfolding run_def
proof (induction calls arbitrary: s)
  case Nil
  then show ?case by simp
next
  case (Cons ec calls)
  obtain env c where ec: "ec = (env, c)" by (cases ec)
  have "loansStorage (exec s (env, c)) = []"
    using Cons.prems
    by (cases c)
       (simp_all add: registerUser_def saveFunds_def createLoanRequest_traps
          acceptLoanRequest_traps makeRepayment_def checkForDefault_def loanIsDefaulted_def
          modifyLoanTerms_def accumulateInterest_def automateLoanRepayment_def
          requestLoanExtension_def committed_def btree_get_def btree_values_def Let_def
          split: option.splits sum.splits prod.splits)
  then show ?case
    using Cons.IH ec by simp
qed


text \<open>
  C5. The specification has \<open>acceptLoanRequest\<close> produce, for every existing request, an
  Active loan created now, due after the request's duration and without lender. In the
  code the lookup of the request traps for every id, also in a store that holds a request
  of the caller named by the id: no loan is produced.
\<close>

theorem acceptLoanRequest_traps_on_stored_request:
  "btree_get (loanRequestsStorage sampleStart) ''alice'' = Some [sampleRequest] \<and>
   acceptLoanRequest (callAt ''bob'' 5 ''L2'') sampleStart ''alice'' = Inl EncodeError \<and>
   acceptLoanRequest (callAt ''bob'' 5 ''L2'') sampleStart ''r1'' = Inl EncodeError \<and>
   exec sampleStart (callAt ''bob'' 5 ''L2'', AcceptLoanRequest ''alice'') = sampleStart"
  by (simp add: acceptLoanRequest_def requests_get_def encodePrincipal_def committed_def
        sampleStart_def btree_get_def)

section \<open>Repayments\<close>

text \<open>
  C9. For every stored loan and every repayment amount, zero included, \<open>makeRepayment\<close>
  answers \<open>Ok\<close> with its success message and leaves the whole canister state as it was.
\<close>

theorem makeRepayment_changes_nothing:
  "btree_get (loansStorage s) loanId = Some loan \<Longrightarrow>
   makeRepayment env s loanId repaymentAmount =
     (Inr (''Repayment of '' @ bigint_toString repaymentAmount @ '' for loan id=''
             @ loanId @ '' successful''), s)"
  by (simp add: makeRepayment_def loanIsFullyRepaid_def)

theorem makeRepayment_changes_nothing_witness:
  "btree_get (loansStorage (sampleCanister (sampleLoan 1000 3600 (Active ''ACTIVE'')))) ''L1''
     = Some (sampleLoan 1000 3600 (Active ''ACTIVE'')) \<and>
   makeRepayment (callAt ''alice'' 10 ''u1'') (sampleCanister (sampleLoan 1000 3600 (Active ''ACTIVE''))) ''L1'' 0
     = (Inr (''Repayment of '' @ bigint_toString 0 @ '' for loan id='' @ ''L1'' @ '' successful''),
        sampleCanister (sampleLoan 1000 3600 (Active ''ACTIVE'')))"
  using makeRepayment_changes_nothing
          [of "sampleCanister (sampleLoan 1000 3600 (Active ''ACTIVE''))" "''L1''"
              "sampleLoan 1000 3600 (Active ''ACTIVE'')" "callAt ''alice'' 10 ''u1''" 0]
  by (simp add: sampleCanister_def sampleLoan_def btree_get_def)

text \<open>
  C3. The specification has a repayment that covers principal plus interest complete the
  loan, and a later repayment on it fail with \<open>InvalidPayload\<close>. In the code
  \<open>loanIsFullyRepaid\<close> answers false for every loan and \<open>makeRepayment\<close> does not look at
  the status: a repayment of 1050 on an Active loan of 1000 at 5 percent leaves it Active,
  and a repayment on a Completed loan is answered \<open>Ok\<close>.
\<close>

theorem makeRepayment_never_completes:
  "makeRepayment (callAt ''alice'' 10 ''u1'')
       (sampleCanister (sampleLoan 1000 3600 (Active ''ACTIVE''))) ''L1'' 1050
     = (Inr ''Repayment of 1050 for loan id=L1 successful'',
        sampleCanister (sampleLoan 1000 3600 (Active ''ACTIVE''))) \<and>
   makeRepayment (callAt ''alice'' 11 ''u2'')
       (sampleCanister (sampleLoan 1000 3600 (Completed ''COMPLETED''))) ''L1'' 1
     = (Inr ''Repayment of 1 for loan id=L1 successful'',
        sampleCanister (sampleLoan 1000 3600 (Completed ''COMPLETED'')))"
  by (simp add: makeRepayment_def loanIsFullyRepaid_def sampleCanister_def sampleLoan_def
        btree_get_def bigint_toString_def digits.simps)

section \<open>Default check\<close>

lemma checkForDefault_changes_nothing: "checkForDefault env s = ([], s)"
  by (simp add: checkForDefault_def loanIsDefaulted_def)

text \<open>
  C2. The specification has \<open>checkForDefault\<close> leave every loan alone up to its due date
  and mark an Active, insufficiently repaid loan Defaulted once the due date has passed,
  returning its id. In the code \<open>loanIsDefaulted\<close> answers false for every loan: at time
  3601 the sweep returns no id for an Active loan due at 3600 and the loan stays Active.
\<close>

theorem checkForDefault_misses_overdue_loan:
  "checkForDefault (callAt ''alice'' 3601 ''u1'')
       (sampleCanister (sampleLoan 1000 3600 (Active ''ACTIVE'')))
     = ([], sampleCanister (sampleLoan 1000 3600 (Active ''ACTIVE''))) \<and>
   dueDate (sampleLoan 1000 3600 (Active ''ACTIVE'')) < time (callAt ''alice'' 3601 ''u1'') \<and>
   getLoanStatus
       (snd (checkForDefault (callAt ''alice'' 3601 ''u1'')
               (sampleCanister (sampleLoan 1000 3600 (Active ''ACTIVE''))))) ''L1''
     = Inr (Active ''ACTIVE'')"
  by (simp add: checkForDefault_def loanIsDefaulted_def getLoanStatus_def sampleCanister_def
        sampleLoan_def callAt_def btree_get_def)

section \<open>Extension and modification of terms\<close>

lemma terminal_status_not_active:
  "status loan = Completed t \<or> status loan = Defaulted t \<Longrightarrow> \<not> statusIsActive loan"
  by (auto simp: statusIsActive_def)

text \<open>
  C6, as the code has it. For every stored loan whose numbers are \<open>nat64\<close> values and every
  new duration that is one, \<open>requestLoanExtension\<close> fails with \<open>InvalidPayload\<close> and changes
  nothing exactly when the loan is not Active or the new duration is not longer than the
  current one. Otherwise, when the current time plus the new duration is a \<open>nat64\<close> value,
  it sets the duration to the new one and the due date to that sum, stores the loan and
  returns it; when the sum is not a \<open>nat64\<close> value the call traps. On a loan that is not
  Active (Completed and Defaulted loans are such), \<open>modifyLoanTerms\<close> fails with
  \<open>InvalidPayload\<close> and changes nothing.
\<close>

theorem requestLoanExtension_guard:
  assumes "btree_get (loansStorage s) loanId = Some loan"
    and "loanEncodable loan" and "isNat64 newDuration"
  shows "(if \<not> statusIsActive loan \<or> newDuration \<le> duration loan
          then \<exists>msg. requestLoanExtension env s loanId newDuration
                       = Inr (Inl (InvalidPayload msg), s)
          else if isNat64 (time env + newDuration)
          then requestLoanExtension env s loanId newDuration
                 = Inr (Inr (loan\<lparr>duration := newDuration, dueDate := time env + newDuration\<rparr>),
                        s\<lparr>loansStorage :=
                            btree_insert (loan_id loan)
                              (loan\<lparr>duration := newDuration, dueDate := time env + newDuration\<rparr>)
                              (loansStorage s)\<rparr>)
          else requestLoanExtension env s loanId newDuration = Inl EncodeError) \<and>
         (\<not> statusIsActive loan \<longrightarrow>
            (\<exists>msg. modifyLoanTerms env s loanId newTerms = Inr (Inl (InvalidPayload msg), s)))"
  using assms
  by (simp add: requestLoanExtension_def modifyLoanTerms_def calculateDueDate_def Let_def
        loans_insert_def loanEncodable_def)

theorem requestLoanExtension_guard_witness:
  "btree_get (loansStorage (sampleCanister (sampleLoan 1000 3600 (Active ''ACTIVE'')))) ''L1''
     = Some (sampleLoan 1000 3600 (Active ''ACTIVE'')) \<and>
   loanEncodable (sampleLoan 1000 3600 (Active ''ACTIVE'')) \<and> isNat64 7200 \<and>
   requestLoanExtension (callAt ''alice'' 100 ''u1'')
       (sampleCanister (sampleLoan 1000 3600 (Active ''ACTIVE''))) ''L1'' 7200
     = Inr (Inr ((sampleLoan 1000 7200 (Active ''ACTIVE''))\<lparr>dueDate := 7300\<rparr>),
            sampleCanister ((sampleLoan 1000 7200 (Active ''ACTIVE''))\<lparr>dueDate := 7300\<rparr>)) \<and>
   (\<exists>msg. requestLoanExtension (callAt ''alice'' 100 ''u1'')
       (sampleCanister (sampleLoan 1000 3600 (Active ''ACTIVE''))) ''L1'' 3600
     = Inr (Inl (InvalidPayload msg), sampleCanister (sampleLoan 1000 3600 (Active ''ACTIVE'')))) \<and>
   (\<exists>msg. modifyLoanTerms (callAt ''alice'' 100 ''u1'')
       (sampleCanister (sampleLoan 1000 3600 (Defaulted ''DEFAULTED''))) ''L1'' sampleRequest
     = Inr (Inl (InvalidPayload msg),
            sampleCanister (sampleLoan 1000 3600 (Defaulted ''DEFAULTED''))))"
  using requestLoanExtension_guard
          [of "sampleCanister (sampleLoan 1000 3600 (Active ''ACTIVE''))" "''L1''"
              "sampleLoan 1000 3600 (Active ''ACTIVE'')" 7200 "callAt ''alice'' 100 ''u1''"]
        requestLoanExtension_guard
          [of "sampleCanister (sampleLoan 1000 3600 (Active ''ACTIVE''))" "''L1''"
              "sampleLoan 1000 3600 (Active ''ACTIVE'')" 3600 "callAt ''alice'' 100 ''u1''"]
        requestLoanExtension_guard
          [of "sampleCanister (sampleLoan 1000 3600 (Defaulted ''DEFAULTED''))" "''L1''"
              "sampleLoan 1000 3600 (Defaulted ''DEFAULTED'')" 0 "callAt ''alice'' 100 ''u1''"
              sampleRequest]
  by (simp add: sampleCanister_def sampleLoan_def callAt_def btree_get_def btree_insert_def
        statusIsActive_def loanEncodable_def isNat64_def)

text \<open>
  C6, as the specification states it, fails: an Active loan of duration 3600 is asked at
  time 100 to extend to \<open>2^64 - 1\<close>, a longer duration. The due date \<open>2^64 + 99\<close> is not a
  \<open>nat64\<close> value; the call traps and the stored loan keeps its duration and due date.
\<close>

theorem requestLoanExtension_traps_on_overflow:
  "statusIsActive (sampleLoan 1000 3600 (Active ''ACTIVE'')) \<and>
   duration (sampleLoan 1000 3600 (Active ''ACTIVE'')) < 18446744073709551615 \<and>
   isNat64 18446744073709551615 \<and>
   requestLoanExtension (callAt ''alice'' 100 ''u1'')
       (sampleCanister (sampleLoan 1000 3600 (Active ''ACTIVE''))) ''L1'' 18446744073709551615
     = Inl EncodeError \<and>
   exec (sampleCanister (sampleLoan 1000 3600 (Active ''ACTIVE'')))
       (callAt ''alice'' 100 ''u1'', RequestLoanExtension ''L1'' 18446744073709551615)
     = sampleCanister (sampleLoan 1000 3600 (Active ''ACTIVE''))"
  by (simp add: requestLoanExtension_def calculateDueDate_def loans_insert_def
        loanEncodable_def isNat64_def statusIsActive_def sampleCanister_def sampleLoan_def
        callAt_def btree_get_def committed_def Let_def)

section \<open>Interest accrual\<close>



lemma accumulateInterest_Inr:
  "accumulateInterest env s = Inr (ids, s') \<Longrightarrow>
   loansStorage s' =
     foldl (\<lambda>m loan. btree_insert (loan_id loan)
              (loan\<lparr>amount := amount loan + calculateAccumulatedInterest env loan\<rparr>) m)
       (loansStorage s) (filter statusIsActive (btree_values (loansStorage s))) \<and>
   ids = map loan_id (filter statusIsActive (btree_values (loansStorage s)))"
  by (auto simp: accumulateInterest_def Let_def split: sum.splits prod.splits
           dest!: forEach_accumulateInterest_Inr)

lemma accumulateInterest_skips_inactive:
  assumes "loansKeyedById (loansStorage s)"
    and "btree_get (loansStorage s) k = Some loan"
    and "\<not> statusIsActive loan"
    and "accumulateInterest env s = Inr (ids, s')"
  shows "btree_get (loansStorage s') k = Some loan"
proof -
  have "k \<notin> loan_id ` set (filter statusIsActive (btree_values (loansStorage s)))"
  proof
    assume "k \<in> loan_id ` set (filter statusIsActive (btree_values (loansStorage s)))"
    then obtain l where l: "l \<in> set (btree_values (loansStorage s))" "statusIsActive l" "loan_id l = k"
      by auto
    then obtain k' where "(k', l) \<in> set (loansStorage s)"
      by (auto simp: btree_values_def)
    moreover from this have "loan_id l = k'"
      using assms(1) by (auto simp: loansKeyedById_def list_all_iff)
    ultimately have "map_of (loansStorage s) k = Some l"
      using assms(1) l(3) by (simp add: loansKeyedById_def)
    then show False
      using assms(2,3) l(2) by (simp add: btree_get_def)
  qed
  then show ?thesis
    using assms(2) accumulateInterest_Inr [OF assms(4)] by (simp add: sweep_get_other)
qed

lemma accumulateInterest_traps_on_overflow:
  "accumulateInterest (callAt ''alice'' 31536000 ''u1'')
       (sampleCanister (sampleLoan 18446744073709551615 3600 (Active ''ACTIVE'')))
     = Inl EncodeError"
  by (simp add: accumulateInterest_def accumulateInterest_each_def
        calculateAccumulatedInterest_def bigint_quot_def secondsPerYear_def loans_insert_def
        loanEncodable_def isNat64_def sampleCanister_def sampleLoan_def callAt_def
        statusIsActive_def btree_values_def)




section \<open>Automated repayment\<close>

text \<open>
  C4. The specification has no operation change a Completed or Defaulted loan.
  \<open>accumulateInterest\<close> selects Active loans only (\<open>accumulateInterest_skips_inactive\<close>),
  but \<open>automateLoanRepayment\<close> selects by due date alone: a Completed loan of 100000 past
  its due date is rewritten with the amount 85000.
\<close>

theorem automateLoanRepayment_mutates_completed_loan:
  "automateLoanRepayment (callAt ''alice'' 31536000 ''u1'')
       (sampleCanister (sampleLoan 100000 10 (Completed ''COMPLETED'')))
     = Inr ([''L1''], sampleCanister (sampleLoan 85000 10 (Completed ''COMPLETED'')))"
  by (simp add: automateLoanRepayment_def automateLoanRepayment_each_def
        shouldAutomateRepayment_def calculateRepaymentAmount_def
        calculateAccumulatedInterest_def bigint_div_def bigint_quot_def secondsPerYear_def
        loans_insert_def loanEncodable_def isNat64_def sampleCanister_def sampleLoan_def
        callAt_def btree_values_def btree_insert_def)

text \<open>
  C8. The specification has the repayment amount of a loan with duration 0 signalled as
  \<open>InvalidPayload\<close>, so that the sweep never traps. In the code the division by the
  duration is unguarded: with a loan of duration 0 past its due date the whole call traps.
\<close>

theorem automateLoanRepayment_traps_on_zero_duration:
  "automateLoanRepayment (callAt ''alice'' 100 ''u1'')
       (sampleCanister (sampleLoan 1000 0 (Active ''ACTIVE'')))
     = Inl DivisionByZero"
  by (simp add: automateLoanRepayment_def automateLoanRepayment_each_def
        shouldAutomateRepayment_def calculateRepaymentAmount_def
        calculateAccumulatedInterest_def bigint_div_def bigint_quot_def secondsPerYear_def
        loans_insert_def loanEncodable_def isNat64_def sampleCanister_def sampleLoan_def
        callAt_def btree_values_def btree_insert_def)

section \<open>The lender of a stored loan\<close>

lemma lenderAbsent_insert:
  "lenderAbsent m \<Longrightarrow> lender loan = None \<Longrightarrow> lenderAbsent (btree_insert k loan m)"
  using set_update_subset [of k loan m]
  by (auto simp: lenderAbsent_def btree_insert_def btree_values_def list_all_iff)

lemma lenderAbsent_loans_insert:
  "lenderAbsent m \<Longrightarrow> lender loan = None \<Longrightarrow> loans_insert k loan m = Inr m' \<Longrightarrow>
   lenderAbsent m'"
  by (auto simp: loans_insert_def lenderAbsent_insert split: if_splits)

lemma lenderAbsent_values:
  "lenderAbsent m \<Longrightarrow> loan \<in> set (btree_values m) \<Longrightarrow> lender loan = None"
  by (simp add: lenderAbsent_def list_all_iff)

lemma lenderAbsent_get:
  "lenderAbsent m \<Longrightarrow> btree_get m k = Some loan \<Longrightarrow> lender loan = None"
  by (auto simp: lenderAbsent_def list_all_iff btree_get_def btree_values_def
           dest!: map_of_SomeD intro: rev_image_eqI)

lemma lenderAbsent_sweep:
  "lenderAbsent m \<Longrightarrow> \<forall>loan \<in> set ls. lender (f loan) = None \<Longrightarrow>
   lenderAbsent (foldl (\<lambda>st loan. btree_insert (loan_id loan) (f loan) st) m ls)"
  by (induction ls arbitrary: m) (simp_all add: lenderAbsent_insert)

lemma forEach_preserves:
  assumes "forEach f xs a = Inr b" and "P a"
    and "\<And>x a a'. x \<in> set xs \<Longrightarrow> P a \<Longrightarrow> f x a = Inr a' \<Longrightarrow> P a'"
  shows "P b"
  using assms
proof (induction xs arbitrary: a)
  case Nil
  then show ?case by simp
next
  case (Cons x xs)
  from Cons.prems(1) obtain a' where step: "f x a = Inr a'" and rest: "forEach f xs a' = Inr b"
    by (auto split: sum.splits)
  have here: "P a'"
    using Cons.prems(3) [of x a a'] Cons.prems(2) step by simp
  have later: "P c'" if "y \<in> set xs" "P c" "f y c = Inr c'" for y c c'
    using Cons.prems(3) [of y c c'] that by simp
  show ?case
    by (rule Cons.IH [OF rest here later])
qed

lemma lenderAbsent_accumulateInterest_each:
  "lenderAbsent (fst a) \<Longrightarrow> lender loan = None \<Longrightarrow>
   accumulateInterest_each env loan a = Inr a' \<Longrightarrow> lenderAbsent (fst a')"
  by (auto simp: accumulateInterest_each_def Let_def split: sum.splits
           dest: lenderAbsent_loans_insert [rotated 2])

lemma lenderAbsent_automateLoanRepayment_each:
  "lenderAbsent (fst a) \<Longrightarrow> lender loan = None \<Longrightarrow>
   automateLoanRepayment_each env loan a = Inr a' \<Longrightarrow> lenderAbsent (fst a')"
  by (auto simp: automateLoanRepayment_each_def Let_def split: sum.splits
           dest: lenderAbsent_loans_insert [rotated 2])

lemma lenderAbsent_accumulateInterest:
  assumes "lenderAbsent (loansStorage s)" and "accumulateInterest env s = Inr (ids, s')"
  shows "lenderAbsent (loansStorage s')"
proof -
  from assms(2) obtain st where
    r: "forEach (accumulateInterest_each env)
          (filter statusIsActive (btree_values (loansStorage s))) (loansStorage s, []) = Inr (st, ids)"
    and s': "s' = s\<lparr>loansStorage := st\<rparr>"
    by (auto simp: accumulateInterest_def Let_def split: sum.splits prod.splits)
  have "lenderAbsent (fst (st, ids))"
    using r
  proof (rule forEach_preserves)
    show "lenderAbsent (fst (loansStorage s, []))"
      using assms(1) by simp
  next
    fix x a a'
    assume "x \<in> set (filter statusIsActive (btree_values (loansStorage s)))"
      and "lenderAbsent (fst a)" and "accumulateInterest_each env x a = Inr a'"
    then show "lenderAbsent (fst a')"
      using assms(1) by (auto intro: lenderAbsent_accumulateInterest_each dest: lenderAbsent_values)
  qed
  then show ?thesis
    by (simp add: s')
qed

lemma lenderAbsent_automateLoanRepayment:
  assumes "lenderAbsent (loansStorage s)" and "automateLoanRepayment env s = Inr (ids, s')"
  shows "lenderAbsent (loansStorage s')"
proof -
  from assms(2) obtain st where
    r: "forEach (automateLoanRepayment_each env)
          (filter (shouldAutomateRepayment env) (btree_values (loansStorage s)))
          (loansStorage s, []) = Inr (st, ids)"
    and s': "s' = s\<lparr>loansStorage := st\<rparr>"
    by (auto simp: automateLoanRepayment_def Let_def split: sum.splits prod.splits)
  have "lenderAbsent (fst (st, ids))"
    using r
  proof (rule forEach_preserves)
    show "lenderAbsent (fst (loansStorage s, []))"
      using assms(1) by simp
  next
    fix x a a'
    assume "x \<in> set (filter (shouldAutomateRepayment env) (btree_values (loansStorage s)))"
      and "lenderAbsent (fst a)" and "automateLoanRepayment_each env x a = Inr a'"
    then show "lenderAbsent (fst a')"
      using assms(1)
      by (auto intro: lenderAbsent_automateLoanRepayment_each dest: lenderAbsent_values)
  qed
  then show ?thesis
    by (simp add: s')
qed

lemma lenderAbsent_exec:
  assumes a: "lenderAbsent (loansStorage s)"
  shows "lenderAbsent (loansStorage (exec s (env, c)))"
proof (cases c)
  case AutomateLoanRepayment
  show ?thesis
    using a lenderAbsent_automateLoanRepayment [OF a]
    by (auto simp: AutomateLoanRepayment committed_def split: sum.splits prod.splits)
next
  case AccumulateInterest
  show ?thesis
    using a lenderAbsent_accumulateInterest [OF a]
    by (auto simp: AccumulateInterest committed_def split: sum.splits prod.splits)
next
  case CheckForDefault
  show ?thesis
    using a by (auto simp: CheckForDefault checkForDefault_def lenderAbsent_values Let_def
                     intro!: lenderAbsent_sweep)
next
  case (ModifyLoanTerms loanId newTerms)
  show ?thesis
    using a
    by (auto simp: ModifyLoanTerms modifyLoanTerms_def committed_def Let_def
             split: option.splits sum.splits if_splits
             dest!: lenderAbsent_loans_insert [rotated 2] dest: lenderAbsent_get)
next
  case (RequestLoanExtension loanId newDuration)
  show ?thesis
    using a
    by (auto simp: RequestLoanExtension requestLoanExtension_def committed_def Let_def
             split: option.splits sum.splits if_splits
             dest!: lenderAbsent_loans_insert [rotated 2] dest: lenderAbsent_get)
next
  case (SaveFunds amt)
  show ?thesis
    using a
    by (auto simp: SaveFunds saveFunds_def committed_def Let_def
             split: option.splits sum.splits)
qed (auto simp: a registerUser_def createLoanRequest_traps acceptLoanRequest_traps
      makeRepayment_def loanIsFullyRepaid_def committed_def Let_def
      split: option.splits)

lemma lenderAbsent_run:
  "lenderAbsent (loansStorage s) \<Longrightarrow> lenderAbsent (loansStorage (run s calls))"
  unfolding run_def
  by (induction calls arbitrary: s) (auto simp: lenderAbsent_exec)

lemma lenderAbsent_init: "lenderAbsent (loansStorage init_canister)"
  by (simp add: lenderAbsent_def init_canister_def btree_values_def)

lemma filterThrowing_historyPredicate:
  "filterThrowing (historyPredicate p) ls =
     (if list_all (\<lambda>loan. borrower loan = p) ls then Inr ls else Inl TypeError)"
  by (induction ls) (auto simp: historyPredicate_def)

text \<open>
  C10. No update call assigns a lender: from a loans store in which every loan has no
  lender, and the empty store of the initial canister is one (\<open>lenderAbsent_init\<close>), every
  sequence of update calls leads to a store in which every loan has no lender. There
  \<open>getUserLoanHistory\<close> never selects a loan through its lender: it returns the stored
  loans when the borrower of each is the given principal, and throws otherwise.
\<close>

theorem lender_never_assigned:
  assumes "lenderAbsent (loansStorage s)"
  shows "lenderAbsent (loansStorage (run s calls)) \<and>
         getUserLoanHistory (run s calls) p =
           (if list_all (\<lambda>loan. borrower loan = p) (btree_values (loansStorage (run s calls)))
            then Inr (btree_values (loansStorage (run s calls)))
            else Inl TypeError)"
  using assms
  by (simp add: lenderAbsent_run getUserLoanHistory_def filterThrowing_historyPredicate)

theorem lender_never_assigned_witness:
  "lenderAbsent (loansStorage (sampleCanister (sampleLoan 1000 3600 (Active ''ACTIVE'')))) \<and>
   map lender (btree_values (loansStorage
      (run (sampleCanister (sampleLoan 1000 3600 (Active ''ACTIVE'')))
         [(callAt ''alice'' 100 ''u1'', RequestLoanExtension ''L1'' 7200),
          (callAt ''bob'' 200 ''u2'', ModifyLoanTerms ''L1'' sampleRequest)]))) = [None] \<and>
   getUserLoanHistory
      (run (sampleCanister (sampleLoan 1000 3600 (Active ''ACTIVE'')))
         [(callAt ''alice'' 100 ''u1'', RequestLoanExtension ''L1'' 7200),
          (callAt ''bob'' 200 ''u2'', ModifyLoanTerms ''L1'' sampleRequest)]) ''alice''
     = Inr [(sampleLoan 1000 3600 (Active ''ACTIVE''))\<lparr>dueDate := 3800\<rparr>] \<and>
   getUserLoanHistory
      (run (sampleCanister (sampleLoan 1000 3600 (Active ''ACTIVE'')))
         [(callAt ''alice'' 100 ''u1'', RequestLoanExtension ''L1'' 7200),
          (callAt ''bob'' 200 ''u2'', ModifyLoanTerms ''L1'' sampleRequest)]) ''bob''
     = Inl TypeError"
  using lender_never_assigned
          [of "sampleCanister (sampleLoan 1000 3600 (Active ''ACTIVE''))"
              "[(callAt ''alice'' 100 ''u1'', RequestLoanExtension ''L1'' 7200),
                (callAt ''bob'' 200 ''u2'', ModifyLoanTerms ''L1'' sampleRequest)]" "''alice''"]
        lender_never_assigned
          [of "sampleCanister (sampleLoan 1000 3600 (Active ''ACTIVE''))"
              "[(callAt ''alice'' 100 ''u1'', RequestLoanExtension ''L1'' 7200),
                (callAt ''bob'' 200 ''u2'', ModifyLoanTerms ''L1'' sampleRequest)]" "''bob''"]
  by (simp add: sampleCanister_def sampleLoan_def sampleRequest_def callAt_def run_def
        committed_def lenderAbsent_def requestLoanExtension_def modifyLoanTerms_def
        statusIsActive_def calculateDueDate_def loans_insert_def loanEncodable_def isNat64_def
        btree_get_def btree_insert_def btree_values_def Let_def)

end
